theory Spec2Isabelle
  imports Main
begin

section \<open>Objects of named properties\<close>

text \<open>
  The stacks build their configuration from object literals. An object is kept as the list
  of its properties in insertion order, each name occurring once. Writing a property that
  is already there replaces its value in place, a new one is appended: this is what
  evaluating \<^verbatim>\<open>{ ...env, KEY: value }\<close> does, first for the properties
  copied by the spread and then for the entries written after it.
\<close>

type_synonym 'v obj = "(string \<times> 'v) list"

fun set_property :: "'v obj \<Rightarrow> string \<Rightarrow> 'v \<Rightarrow> 'v obj" where
  "set_property [] k v = [(k, v)]"
| "set_property ((k', v') # ps) k v =
     (if k' = k then (k, v) # ps else (k', v') # set_property ps k v)"

fun define_properties :: "'v obj \<Rightarrow> (string \<times> 'v) list \<Rightarrow> 'v obj" where
  "define_properties ob [] = ob"
| "define_properties ob ((k, v) # es) = define_properties (set_property ob k v) es"

definition get_property :: "'v obj \<Rightarrow> string \<Rightarrow> 'v option" where
  "get_property ob k = map_of ob k"

definition keys :: "'v obj \<Rightarrow> string list" where
  "keys ob = map fst ob"

text \<open>\<^verbatim>\<open>{ ...base, e1, e2, ... }\<close>: a fresh object receives the properties of
  \<open>base\<close>, then the entries that follow the spread, left to right.\<close>

definition spread_then :: "'v obj \<Rightarrow> (string \<times> 'v) list \<Rightarrow> 'v obj" where
  "spread_then base entries = define_properties (define_properties [] base) entries"

section \<open>Deferred values and stack properties\<close>

text \<open>
  The stacks never read a parameter or a secret themselves: they only build references
  that the provisioning engine resolves at deploy time. A value is a plain string, a
  parameter-store lookup (\<^verbatim>\<open>StringParameter.valueForStringParameter\<close>), a field of a
  secret (\<^verbatim>\<open>SecretValue.secretsManager(path, { jsonField })\<close>) or the URL of a gateway
  construct of the stack (\<^verbatim>\<open>api.url\<close>).
\<close>

datatype value_ref =
    Literal string
  | ParameterLookup string
  | SecretField string string
  | RestApiUrl string

text \<open>\<^verbatim>\<open>ILibCalGatewayStackProps\<close>, with the inherited \<^verbatim>\<open>stackName\<close> that both stacks
  read, and the \<^verbatim>\<open>region\<close> and \<^verbatim>\<open>account\<close> of the stack that the authorizer's ARN uses.\<close>

record ILibCalGatewayStackProps =
  stackName :: string
  stage :: string
  lambdaCodePath :: string
  sentryProject :: string
  sentryVersion :: string
  secretsPath :: string
  region :: string
  account :: string

section \<open>Backing functions\<close>

datatype runtime = NODEJS_8_10 | NODEJS_10_X | NODEJS_12_X

datatype retention_days = ONE_DAY | THREE_DAYS | ONE_WEEK | TWO_WEEKS | ONE_MONTH

text \<open>\<^verbatim>\<open>cdk.Duration.seconds(n)\<close> and \<^verbatim>\<open>cdk.Duration.minutes(n)\<close>.\<close>

datatype duration = Seconds nat | Minutes nat

text \<open>The properties given to \<^verbatim>\<open>new lambda.Function\<close>; the memory size is in MB.\<close>

record function_props =
  functionName :: string
  description :: string
  code :: string
  handler :: string
  runtime :: runtime
  logRetention :: retention_days
  memorySize :: nat
  timeout :: duration
  environment :: "value_ref obj"

definition cfSecretsPath :: "ILibCalGatewayStackProps \<Rightarrow> string" where
  "cfSecretsPath props = ''/all/contentful/'' @ stage props"

definition paramStorePath :: "ILibCalGatewayStackProps \<Rightarrow> string" where
  "paramStorePath props = ''/all/libcal-gateway/'' @ stage props"

definition env :: "ILibCalGatewayStackProps \<Rightarrow> value_ref obj" where
  "env props = define_properties []
     [(''SENTRY_DSN'', ParameterLookup (paramStorePath props @ ''/sentry_dsn'')),
      (''SENTRY_ENVIRONMENT'', Literal (stage props)),
      (''SENTRY_RELEASE'', Literal (sentryProject props @ ''@'' @ sentryVersion props)),
      (''LIBCAL_API_URL'', ParameterLookup (paramStorePath props @ ''/libcal_api_url'')),
      (''API_CLIENT_ID'', SecretField (secretsPath props) ''api_client_id''),
      (''API_CLIENT_SECRET'', SecretField (secretsPath props) ''api_client_secret'')]"

definition spaceLocationsLambda :: "ILibCalGatewayStackProps \<Rightarrow> function_props" where
  "spaceLocationsLambda props =
     \<lparr> functionName = stackName props @ ''-getSpaceLocations'',
       description = ''Get a list of spaces available.'',
       code = lambdaCodePath props,
       handler = ''getSpaceLocations.handler'',
       runtime = NODEJS_12_X,
       logRetention = ONE_WEEK,
       memorySize = 256,
       timeout = Seconds 30,
       environment = env props \<rparr>"

definition spaceBookingsLambda :: "ILibCalGatewayStackProps \<Rightarrow> function_props" where
  "spaceBookingsLambda props =
     \<lparr> functionName = stackName props @ ''-getSpaceBookings'',
       description = ''Get a list of space bookings for the authenticated user.'',
       code = lambdaCodePath props,
       handler = ''getSpaceBookings.handler'',
       runtime = NODEJS_12_X,
       logRetention = ONE_WEEK,
       memorySize = 256,
       timeout = Seconds 30,
       environment = env props \<rparr>"

definition cancelBookingLambda :: "ILibCalGatewayStackProps \<Rightarrow> function_props" where
  "cancelBookingLambda props =
     \<lparr> functionName = stackName props @ ''-cancelBooking'',
       description = ''Cancel a given booking that the authenticated user has reserved.'',
       code = lambdaCodePath props,
       handler = ''cancelBooking.handler'',
       runtime = NODEJS_12_X,
       logRetention = ONE_WEEK,
       memorySize = 256,
       timeout = Seconds 30,
       environment = env props \<rparr>"

definition hoursLambda :: "ILibCalGatewayStackProps \<Rightarrow> function_props" where
  "hoursLambda props =
     \<lparr> functionName = stackName props @ ''-hours'',
       description = ''Get hours for library locations from Libcal.'',
       code = lambdaCodePath props,
       handler = ''hours.handler'',
       runtime = NODEJS_12_X,
       logRetention = ONE_WEEK,
       memorySize = 256,
       timeout = Seconds 30,
       environment = spread_then (env props)
         [(''LIBCAL_HOURS_WIDGET_URL'',
           ParameterLookup (paramStorePath props @ ''/hours_widget_url''))] \<rparr>"

definition newEventLambda :: "ILibCalGatewayStackProps \<Rightarrow> function_props" where
  "newEventLambda props =
     \<lparr> functionName = stackName props @ ''-newEvent'',
       description = ''Contentful hook to update event information from LibCal.'',
       code = lambdaCodePath props,
       handler = ''newEvent.handler'',
       runtime = NODEJS_12_X,
       logRetention = ONE_WEEK,
       memorySize = 256,
       timeout = Seconds 30,
       environment = spread_then (env props)
         [(''CONTENTFUL_SPACE'', SecretField (cfSecretsPath props) ''library-website/space''),
          (''CONTENTFUL_ENV'',
           SecretField (cfSecretsPath props) ''library-website/environment''),
          (''CONTENTFUL_CMA_TOKEN'', SecretField (cfSecretsPath props) ''management_token''),
          (''CONTENTFUL_CMA_URL'', Literal ''https://api.contentful.com'')] \<rparr>"

section \<open>Constructs of a stack\<close>

text \<open>
  \<^verbatim>\<open>new X(this, id, props)\<close> creates a construct named \<open>id\<close> in the stack. Other
  objects refer to a construct by reference; the model keeps the construct's name as that
  reference, so two holders of the same name hold the same instance.
\<close>

record token_authorizer_props =
  authorizer_handler :: string
  identitySource :: string
  authorizerName :: string
  resultsCacheTtl :: duration

record string_parameter_props =
  parameterName :: string
  parameter_description :: string
  stringValue :: value_ref

datatype construct =
    Function string function_props
  | ImportedFunction string string
  | TokenAuthorizer string token_authorizer_props
  | StringParameter string string_parameter_props

fun construct_id :: "construct \<Rightarrow> string" where
  "construct_id (Function i _) = i"
| "construct_id (ImportedFunction i _) = i"
| "construct_id (TokenAuthorizer i _) = i"
| "construct_id (StringParameter i _) = i"

section \<open>The gateway\<close>

datatype authorization_type = NONE | IAM | CUSTOM | COGNITO

datatype method_logging_level = OFF | ERROR | INFO

datatype passthrough_behavior = WHEN_NO_MATCH | WHEN_NO_TEMPLATES | NEVER

record method_options =
  authorizationType :: authorization_type
  authorizer :: string
  requestParameters :: "bool obj"

record integration_options =
  passthroughBehavior :: passthrough_behavior
  integration_requestParameters :: "string obj"

text \<open>\<^verbatim>\<open>new apigateway.LambdaIntegration(fn, options?)\<close>.\<close>

record lambda_integration =
  integration_handler :: string
  integration_options :: "integration_options option"

text \<open>What one \<^verbatim>\<open>addMethod\<close> call binds: a routing node, a verb, the integration with
  the backing function, and the method options (\<open>None\<close> for \<^verbatim>\<open>undefined\<close>).\<close>

record method_binding =
  resource :: string
  httpMethod :: string
  integration :: lambda_integration
  options :: "method_options option"

record deploy_options =
  stageName :: string
  metricsEnabled :: bool
  loggingLevel :: method_logging_level

record cors_options =
  allowOrigins :: "string list"
  allowCredentials :: bool
  statusCode :: nat

record request_validator_options =
  validateRequestParameters :: bool

record rest_api_props =
  restApiName :: string
  api_description :: string
  endpointExportName :: string
  deployOptions :: deploy_options
  defaultCorsPreflightOptions :: cors_options

record rest_api =
  api_id :: string
  api_props :: rest_api_props
  requestValidators :: "(string \<times> request_validator_options) list"
  resources :: "string list"
  methods :: "method_binding list"

datatype error = ConfigurationError string string

definition new_RestApi :: "string \<Rightarrow> rest_api_props \<Rightarrow> rest_api" where
  "new_RestApi i p =
     \<lparr> api_id = i, api_props = p, requestValidators = [], resources = [], methods = [] \<rparr>"

definition addRequestValidator ::
  "rest_api \<Rightarrow> string \<Rightarrow> request_validator_options \<Rightarrow> rest_api" where
  "addRequestValidator api i opts =
     api\<lparr> requestValidators := requestValidators api @ [(i, opts)] \<rparr>"

text \<open>
  Modelled from the spec: \<^verbatim>\<open>api.root.resourceForPath\<close> and \<^verbatim>\<open>Resource.addMethod\<close> belong
  to the construct library, which is not part of the repository's sources. Following the
  resolver's contract, \<open>resourceForPath\<close> resolves the routing node of a path or creates
  it when there is none yet (a node is identified by its path; the intermediate nodes of
  the path are not represented), and \<open>addMethod\<close> binds a verb on a node, refusing a
  (path, method) pair that is already bound with a configuration error.
\<close>

definition resourceForPath :: "rest_api \<Rightarrow> string \<Rightarrow> string \<times> rest_api" where
  "resourceForPath api p =
     (p, if p \<in> set (resources api) then api else api\<lparr> resources := resources api @ [p] \<rparr>)"

definition addMethod ::
  "rest_api \<Rightarrow> string \<Rightarrow> string \<Rightarrow> lambda_integration \<Rightarrow> method_options option
     \<Rightarrow> error + rest_api" where
  "addMethod api node verb integ opts =
     (if (node, verb) \<in> set (map (\<lambda>b. (resource b, httpMethod b)) (methods api))
      then Inl (ConfigurationError node verb)
      else Inr (api\<lparr> methods := methods api @
             [\<lparr> resource = node, httpMethod = verb, integration = integ, options = opts \<rparr>] \<rparr>))"

section \<open>The endpoint table and its resolution\<close>

record endpoint =
  path :: string
  "method" :: string
  lambda :: string
  requiresAuth :: bool

text \<open>The body of the \<^verbatim>\<open>endpointData.forEach\<close> callback.\<close>

definition resolve_endpoint :: "method_options \<Rightarrow> rest_api \<Rightarrow> endpoint \<Rightarrow> error + rest_api" where
  "resolve_endpoint authOpts api ep =
     (let (newResource, api') = resourceForPath api (path ep);
          methodOptions = (if requiresAuth ep then Some authOpts else None)
      in addMethod api' newResource (method ep)
           \<lparr> integration_handler = lambda ep, integration_options = None \<rparr> methodOptions)"

text \<open>\<^verbatim>\<open>forEach\<close> over the table, in order; an exception thrown by one call ends the
  whole resolution, and no gateway is returned.\<close>

fun forEach_endpoints :: "method_options \<Rightarrow> rest_api \<Rightarrow> endpoint list \<Rightarrow> error + rest_api" where
  "forEach_endpoints authOpts api [] = Inr api"
| "forEach_endpoints authOpts api (ep # eps) =
     (case resolve_endpoint authOpts api ep of
        Inl e \<Rightarrow> Inl e
      | Inr api' \<Rightarrow> forEach_endpoints authOpts api' eps)"

section \<open>The service stack\<close>

text \<open>The five \<^verbatim>\<open>new lambda.Function\<close> constructs, under their construct names.\<close>

definition SpaceLocationsFunction :: "ILibCalGatewayStackProps \<Rightarrow> construct" where
  "SpaceLocationsFunction props = Function ''SpaceLocationsFunction'' (spaceLocationsLambda props)"

definition spaceBookingsFunction :: "ILibCalGatewayStackProps \<Rightarrow> construct" where
  "spaceBookingsFunction props = Function ''spaceBookingsFunction'' (spaceBookingsLambda props)"

definition cancelBookingFunction :: "ILibCalGatewayStackProps \<Rightarrow> construct" where
  "cancelBookingFunction props = Function ''cancelBookingFunction'' (cancelBookingLambda props)"

definition hoursFunction :: "ILibCalGatewayStackProps \<Rightarrow> construct" where
  "hoursFunction props = Function ''hoursFunction'' (hoursLambda props)"

definition newEventFunction :: "ILibCalGatewayStackProps \<Rightarrow> construct" where
  "newEventFunction props = Function ''newEventFunction'' (newEventLambda props)"

definition api_construct_props :: "ILibCalGatewayStackProps \<Rightarrow> rest_api_props" where
  "api_construct_props props =
     \<lparr> restApiName = stackName props,
       api_description = ''LibCal Gateway API'',
       endpointExportName = stackName props @ ''-api-url'',
       deployOptions =
         \<lparr> stageName = stage props, metricsEnabled = True, loggingLevel = ERROR \<rparr>,
       defaultCorsPreflightOptions =
         \<lparr> allowOrigins = [''*''], allowCredentials = False, statusCode = 200 \<rparr> \<rparr>"

text \<open>\<^verbatim>\<open>lambda.Function.fromFunctionArn(this, 'AuthorizerFunction', arn)\<close>.\<close>

definition AuthorizerFunction :: "ILibCalGatewayStackProps \<Rightarrow> construct" where
  "AuthorizerFunction props = ImportedFunction ''AuthorizerFunction''
     (''arn:aws:lambda:'' @ region props @ '':'' @ account props
        @ '':function:lambda-auth-'' @ stage props)"

definition JwtAuthorizer :: "ILibCalGatewayStackProps \<Rightarrow> construct" where
  "JwtAuthorizer props = TokenAuthorizer ''JwtAuthorizer''
     \<lparr> authorizer_handler = construct_id (AuthorizerFunction props),
       identitySource = ''method.request.header.Authorization'',
       authorizerName = ''jwt'',
       resultsCacheTtl = Minutes 5 \<rparr>"

definition authMethodOptions :: "ILibCalGatewayStackProps \<Rightarrow> method_options" where
  "authMethodOptions props =
     \<lparr> authorizationType = CUSTOM,
       authorizer = construct_id (JwtAuthorizer props),
       requestParameters =
         define_properties [] [(''method.request.header.Authorization'', True)] \<rparr>"

definition endpointData :: "ILibCalGatewayStackProps \<Rightarrow> endpoint list" where
  "endpointData props =
     [\<lparr> path = ''/space/locations'', method = ''GET'',
        lambda = construct_id (SpaceLocationsFunction props), requiresAuth = False \<rparr>,
      \<lparr> path = ''/space/bookings'', method = ''GET'',
        lambda = construct_id (spaceBookingsFunction props), requiresAuth = True \<rparr>,
      \<lparr> path = ''/hours'', method = ''GET'',
        lambda = construct_id (hoursFunction props), requiresAuth = False \<rparr>,
      \<lparr> path = ''/newevent'', method = ''POST'',
        lambda = construct_id (newEventFunction props), requiresAuth = False \<rparr>]"

definition cancelIntegrationOptions :: integration_options where
  "cancelIntegrationOptions =
     \<lparr> passthroughBehavior = WHEN_NO_MATCH,
       integration_requestParameters =
         define_properties [] [(''integration.request.path.id'', ''method.request.path.id'')] \<rparr>"

text \<open>\<^verbatim>\<open>{ ...authMethodOptions, requestParameters: { 'method.request.path.id': true } }\<close>:
  the properties of \<open>authMethodOptions\<close> are copied, then \<open>requestParameters\<close> is
  written anew.\<close>

definition cancelMethodOptions :: "ILibCalGatewayStackProps \<Rightarrow> method_options" where
  "cancelMethodOptions props =
     (authMethodOptions props)
       \<lparr> requestParameters := define_properties [] [(''method.request.path.id'', True)] \<rparr>"

definition ApiUrlParameter :: "ILibCalGatewayStackProps \<Rightarrow> rest_api \<Rightarrow> construct" where
  "ApiUrlParameter props api = StringParameter ''ApiUrlParameter''
     \<lparr> parameterName = paramStorePath props @ ''/api-url'',
       parameter_description = ''Path to root of the API gateway.'',
       stringValue = RestApiUrl (api_id api) \<rparr>"

text \<open>An assembled stack: its constructs in creation order, and the gateway with the
  methods bound on it.\<close>

record stack =
  constructs :: "construct list"
  stack_api :: rest_api

text \<open>The constructor of \<^verbatim>\<open>LibCalGatewayStack\<close> in \<^verbatim>\<open>src/libcal-gateway-stack.ts\<close>.\<close>

definition LibCalGatewayStack :: "ILibCalGatewayStackProps \<Rightarrow> error + stack" where
  "LibCalGatewayStack props =
     (let api0 = new_RestApi ''ApiGateway'' (api_construct_props props);
          api1 = addRequestValidator api0 ''RequestValidator''
                   \<lparr> validateRequestParameters = True \<rparr>
      in case forEach_endpoints (authMethodOptions props) api1 (endpointData props) of
           Inl e \<Rightarrow> Inl e
         | Inr api2 \<Rightarrow>
             (let (cancelResource, api3) = resourceForPath api2 ''/space/cancel/{id}''
              in case addMethod api3 cancelResource ''POST''
                        \<lparr> integration_handler = construct_id (cancelBookingFunction props),
                          integration_options = Some cancelIntegrationOptions \<rparr>
                        (Some (cancelMethodOptions props)) of
                   Inl e \<Rightarrow> Inl e
                 | Inr api4 \<Rightarrow>
                     Inr \<lparr> constructs =
                             [SpaceLocationsFunction props, spaceBookingsFunction props,
                              cancelBookingFunction props, hoursFunction props,
                              newEventFunction props, AuthorizerFunction props,
                              JwtAuthorizer props, ApiUrlParameter props api4],
                           stack_api = api4 \<rparr>))"

text \<open>
  The second stack of the sources (an unnamed file): the same environment, the first three
  functions, the same gateway, authorizer and cancel binding, a table of two endpoints,
  and no parameter written at the end.
\<close>

definition endpointData_reduced :: "ILibCalGatewayStackProps \<Rightarrow> endpoint list" where
  "endpointData_reduced props =
     [\<lparr> path = ''/space/locations'', method = ''GET'',
        lambda = construct_id (SpaceLocationsFunction props), requiresAuth = False \<rparr>,
      \<lparr> path = ''/space/bookings'', method = ''GET'',
        lambda = construct_id (spaceBookingsFunction props), requiresAuth = True \<rparr>]"

definition LibCalGatewayStack_reduced :: "ILibCalGatewayStackProps \<Rightarrow> error + stack" where
  "LibCalGatewayStack_reduced props =
     (let api0 = new_RestApi ''ApiGateway'' (api_construct_props props);
          api1 = addRequestValidator api0 ''RequestValidator''
                   \<lparr> validateRequestParameters = True \<rparr>
      in case forEach_endpoints (authMethodOptions props) api1 (endpointData_reduced props) of
           Inl e \<Rightarrow> Inl e
         | Inr api2 \<Rightarrow>
             (let (cancelResource, api3) = resourceForPath api2 ''/space/cancel/{id}''
              in case addMethod api3 cancelResource ''POST''
                        \<lparr> integration_handler = construct_id (cancelBookingFunction props),
                          integration_options = Some cancelIntegrationOptions \<rparr>
                        (Some (cancelMethodOptions props)) of
                   Inl e \<Rightarrow> Inl e
                 | Inr api4 \<Rightarrow>
                     Inr \<lparr> constructs =
                             [SpaceLocationsFunction props, spaceBookingsFunction props,
                              cancelBookingFunction props, AuthorizerFunction props,
                              JwtAuthorizer props],
                           stack_api = api4 \<rparr>))"

section \<open>The QA project\<close>

datatype build_image = STANDARD_2_0 | STANDARD_3_0 | STANDARD_4_0

datatype build_environment_variable_type = PLAINTEXT | PARAMETER_STORE | SECRETS_MANAGER

record build_environment_variable =
  var_value :: string
  var_type :: build_environment_variable_type

record build_spec =
  version :: string
  install_runtime_versions :: "string obj"
  install_commands :: "string list"
  build_commands :: "string list"

record ILibCalGatewayQaProjectProps =
  qa_stage :: string
  qa_role :: string

record pipeline_project =
  project_role :: string
  buildImage :: build_image
  environmentVariables :: "build_environment_variable obj"
  buildSpec :: build_spec

definition LibCalGatewayQaProject :: "ILibCalGatewayQaProjectProps \<Rightarrow> pipeline_project" where
  \<open>LibCalGatewayQaProject props =
     (let paramStorePath = ''/all/libcal-gateway/'' @ qa_stage props
      in \<lparr> project_role = qa_role props,
           buildImage = STANDARD_4_0,
           environmentVariables = define_properties []
             [(''API_URL'', \<lparr> var_value = paramStorePath @ ''/api-url'',
                              var_type = PARAMETER_STORE \<rparr>),
              (''CI'', \<lparr> var_value = ''true'', var_type = PLAINTEXT \<rparr>)],
           buildSpec =
             \<lparr> version = ''0.2'',
               install_runtime_versions = define_properties [] [(''nodejs'', ''12.x'')],
               install_commands =
                 [''npm install -g newman'',
                  ''echo "Ensure that the Newman spec is readable"'',
                  ''chmod -R 755 ./tests/postman/*''],
               build_commands =
                 [''echo "Beginning tests at `date`"'',
                  ''newman run ./tests/postman/qa_collection.json --env-var libcalGatewayApiUrl=$API_URL''] \<rparr> \<rparr>)\<close>

section \<open>The delivery pipeline\<close>

text \<open>
  Modelled from the spec: the pipeline stack (\<^verbatim>\<open>libcal-gateway-pipeline-stack\<close>) is
  instantiated by the application's entry point, but its source is not among the files.
  The stage sequence is \<open>Source \<rightarrow> Build \<rightarrow> DeployService \<rightarrow> QAGate \<rightarrow> Notify\<close>, each stage
  with its ordinal position, its inclusion predicate and the artifacts it consumes and
  produces. \<open>DeployService\<close> is included only when a target service topology reference
  is configured, \<open>QAGate\<close> only when \<open>DeployService\<close> is included in the same run;
  the gateway URL is produced by \<open>DeployService\<close> and consumed by \<open>QAGate\<close>.
\<close>

datatype stage_id = Source | Build | DeployService | QAGate | Notify

datatype artifact = GatewayUrl

record pipeline_config =
  serviceTopology :: "string option"

record PipelineStageSpec =
  name :: stage_id
  ordinal :: nat
  inputs :: "artifact list"
  outputs :: "artifact list"

definition deploy_included :: "pipeline_config \<Rightarrow> bool" where
  "deploy_included cfg = (serviceTopology cfg \<noteq> None)"

fun included :: "pipeline_config \<Rightarrow> stage_id \<Rightarrow> bool" where
  "included cfg DeployService = deploy_included cfg"
| "included cfg QAGate = deploy_included cfg"
| "included cfg _ = True"

definition stage_table :: "PipelineStageSpec list" where
  "stage_table =
     [\<lparr> name = Source, ordinal = 0, inputs = [], outputs = [] \<rparr>,
      \<lparr> name = Build, ordinal = 1, inputs = [], outputs = [] \<rparr>,
      \<lparr> name = DeployService, ordinal = 2, inputs = [], outputs = [GatewayUrl] \<rparr>,
      \<lparr> name = QAGate, ordinal = 3, inputs = [GatewayUrl], outputs = [] \<rparr>,
      \<lparr> name = Notify, ordinal = 4, inputs = [], outputs = [] \<rparr>]"

definition pipeline_stages :: "pipeline_config \<Rightarrow> PipelineStageSpec list" where
  "pipeline_stages cfg = filter (\<lambda>s. included cfg (name s)) stage_table"

section \<open>Notions used to state the properties\<close>

definition route_key :: "endpoint \<Rightarrow> string \<times> string" where
  "route_key ep = (path ep, method ep)"

definition binding_key :: "method_binding \<Rightarrow> string \<times> string" where
  "binding_key b = (resource b, httpMethod b)"

definition authorizer_instances :: "stack \<Rightarrow> string list" where
  "authorizer_instances st =
     concat (map (\<lambda>c. case c of TokenAuthorizer i _ \<Rightarrow> [i] | _ \<Rightarrow> []) (constructs st))"

definition declared_functions :: "stack \<Rightarrow> function_props list" where
  "declared_functions st =
     concat (map (\<lambda>c. case c of Function _ fp \<Rightarrow> [fp] | _ \<Rightarrow> []) (constructs st))"

definition published_parameters :: "stack \<Rightarrow> string_parameter_props list" where
  "published_parameters st =
     concat (map (\<lambda>c. case c of StringParameter _ sp \<Rightarrow> [sp] | _ \<Rightarrow> []) (constructs st))"


text \<open>A binding marks a request parameter as required when its method options map the
  parameter's name to \<open>True\<close>.\<close>

definition marks_required :: "method_binding \<Rightarrow> string \<Rightarrow> bool" where
  "marks_required b param =
     (case options b of
        None \<Rightarrow> False
      | Some opts \<Rightarrow> get_property (requestParameters opts) param = Some True)"

definition attached_authorizer :: "method_binding \<Rightarrow> string option" where
  "attached_authorizer b =
     (case options b of
        None \<Rightarrow> None
      | Some opts \<Rightarrow> if authorizationType opts = CUSTOM then Some (authorizer opts) else None)"

fun split_on :: "char \<Rightarrow> string \<Rightarrow> string list" where
  "split_on c [] = [[]]"
| "split_on c (x # xs) =
     (if x = c then [] # split_on c xs
      else (case split_on c xs of [] \<Rightarrow> [[x]] | s # ss \<Rightarrow> (x # s) # ss))"

text \<open>The names of the template parameter segments \<^verbatim>\<open>{name}\<close> of a path.\<close>

definition template_params :: "string \<Rightarrow> string list" where
  "template_params p =
     concat (map (\<lambda>seg. if 2 \<le> length seg \<and> hd seg = CHR ''{'' \<and> last seg = CHR ''}''
                         then [butlast (tl seg)] else [])
                 (split_on CHR ''/'' p))"

text \<open>The path parameters that a binding's method options mark as required: the names
  \<open>n\<close> with \<^verbatim>\<open>method.request.path.n\<close> mapped to \<open>True\<close>.\<close>

definition required_path_params :: "method_binding \<Rightarrow> string list" where
  "required_path_params b =
     (case options b of
        None \<Rightarrow> []
      | Some opts \<Rightarrow>
          concat (map (\<lambda>(k, req). if req \<and> take 20 k = ''method.request.path.''
                                    then [drop 20 k] else [])
                      (requestParameters opts)))"

text \<open>A binding passes the path parameter \<open>n\<close> through when its integration maps
  \<^verbatim>\<open>integration.request.path.n\<close> to \<^verbatim>\<open>method.request.path.n\<close>.\<close>

definition passes_through :: "method_binding \<Rightarrow> string \<Rightarrow> bool" where
  "passes_through b n =
     (case integration_options (integration b) of
        None \<Rightarrow> False
      | Some io \<Rightarrow> get_property (integration_requestParameters io)
                     (''integration.request.path.'' @ n) = Some (''method.request.path.'' @ n))"

text \<open>
  The path-parameter contract of a list of bindings: exactly one of them has a path with a
  template parameter, it is the cancel binding, its parameter \<open>id\<close> is the one path
  parameter it marks as required and it passes it through to the backing function; a
  binding whose path has no template parameter marks no path parameter as required.
\<close>

definition path_parameter_contract :: "method_binding list \<Rightarrow> bool" where
  "path_parameter_contract bs =
     (case filter (\<lambda>b. template_params (resource b) \<noteq> []) bs of
        [c] \<Rightarrow> resource c = ''/space/cancel/{id}''
              \<and> template_params (resource c) = [''id'']
              \<and> required_path_params c = [''id'']
              \<and> passes_through c ''id''
              \<and> list_all (\<lambda>b. template_params (resource b) \<noteq> [] \<or> required_path_params b = []) bs
      | _ \<Rightarrow> False)"


text \<open>The properties that the application's entry point passes for its default stage
  \<^verbatim>\<open>dev\<close> (stack name \<^verbatim>\<open>libcal-gateway-dev\<close>, the sibling checkout as code path),
  with sample context values; the concrete input of the examples below.\<close>

definition dev_props :: ILibCalGatewayStackProps where
  "dev_props =
     \<lparr> stackName = ''libcal-gateway-dev'',
       stage = ''dev'',
       lambdaCodePath = ''../libcal-gateway/src'',
       sentryProject = ''libcal-gateway'',
       sentryVersion = ''4f2a9c1'',
       secretsPath = ''/all/libcal-gateway/dev/secrets'',
       region = ''us-east-1'',
       account = ''123456789012'' \<rparr>"

section \<open>Properties of object composition\<close>

lemma keys_set_property:
  "keys (set_property ob k v) = (if k \<in> set (keys ob) then keys ob else keys ob @ [k])"
  by (induction ob) (force simp: keys_def)+

lemma get_set_property:
  "get_property (set_property ob k v) k' = (if k' = k then Some v else get_property ob k')"
  by (induction ob) (auto simp: get_property_def)

lemma distinct_set_property:
  "distinct (keys ob) \<Longrightarrow> distinct (keys (set_property ob k v))"
  by (simp add: keys_set_property)

lemma distinct_define_properties:
  "distinct (keys ob) \<Longrightarrow> distinct (keys (define_properties ob es))"
  by (induction es arbitrary: ob) (auto simp: distinct_set_property)

lemma get_define_properties_other:
  "k \<notin> fst ` set es \<Longrightarrow> get_property (define_properties ob es) k = get_property ob k"
  by (induction es arbitrary: ob) (auto simp: get_set_property)

lemma get_define_properties_entry:
  "distinct (map fst es) \<Longrightarrow> (k, v) \<in> set es \<Longrightarrow>
     get_property (define_properties ob es) k = Some v"
proof (induction es arbitrary: ob)
  case Nil
  then show ?case by simp
next
  case (Cons e es)
  obtain k' v' where e: "e = (k', v')" by (cases e)
  show ?case
  proof (cases "(k, v) \<in> set es")
    case True
    with Cons e show ?thesis by simp
  next
    case False
    with Cons.prems e have kv: "k' = k" "v' = v" and fresh: "k \<notin> fst ` set es"
      by auto
    from fresh have "get_property (define_properties (set_property ob k v) es) k
        = get_property (set_property ob k v) k"
      by (rule get_define_properties_other)
    with e kv show ?thesis by (simp add: get_set_property)
  qed
qed

lemma set_property_append_fresh:
  "k \<notin> set (keys ob) \<Longrightarrow> set_property ob k v = ob @ [(k, v)]"
  by (induction ob) (auto simp: keys_def)

lemma define_properties_fresh:
  "distinct (map fst es) \<Longrightarrow> set (map fst es) \<inter> set (keys ob) = {} \<Longrightarrow>
     define_properties ob es = ob @ es"
proof (induction es arbitrary: ob)
  case Nil
  then show ?case by simp
next
  case (Cons e es)
  obtain k v where e: "e = (k, v)" by (cases e)
  with Cons.prems have fresh: "k \<notin> set (keys ob)" by auto
  then have step: "set_property ob k v = ob @ [(k, v)]"
    by (rule set_property_append_fresh)
  from Cons.prems e have "distinct (map fst es)"
    and "set (map fst es) \<inter> set (keys (ob @ [(k, v)])) = {}"
    by (auto simp: keys_def)
  then have "define_properties (ob @ [(k, v)]) es = (ob @ [(k, v)]) @ es"
    by (rule Cons.IH)
  with e step show ?case by simp
qed

lemma spread_copy: "distinct (keys ob) \<Longrightarrow> define_properties [] ob = ob"
  using define_properties_fresh [of ob "[]"] by (simp add: keys_def)

text \<open>
  C3. Composing a base environment with a function-specific overlay (both objects, so
  their names are unique): every name the overlay defines carries the overlay's value in
  the result, every other name reads as it does in the base (so base names that the
  overlay does not redefine keep their base value), and the result is an object again.
\<close>

theorem compose_later_wins:
  assumes "distinct (keys base)" and "distinct (keys overlay)"
  shows "(\<forall>(k, v) \<in> set overlay. get_property (spread_then base overlay) k = Some v)
       \<and> (\<forall>k. k \<notin> set (keys overlay) \<longrightarrow>
             get_property (spread_then base overlay) k = get_property base k)
       \<and> distinct (keys (spread_then base overlay))"
proof -
  from assms(1) have copy: "spread_then base overlay = define_properties base overlay"
    by (simp add: spread_then_def spread_copy)
  have "\<forall>(k, v) \<in> set overlay. get_property (define_properties base overlay) k = Some v"
    using assms(2) by (auto simp: keys_def intro: get_define_properties_entry)
  moreover have "\<forall>k. k \<notin> set (keys overlay) \<longrightarrow>
      get_property (define_properties base overlay) k = get_property base k"
    by (auto simp: keys_def intro: get_define_properties_other)
  moreover have "distinct (keys (define_properties base overlay))"
    using assms(1) by (rule distinct_define_properties)
  ultimately show ?thesis unfolding copy by blast
qed

theorem compose_later_wins_witness:
  "distinct (keys [(''A'', Literal ''1''), (''B'', Literal ''2'')])
   \<and> distinct (keys [(''B'', Literal ''3''), (''C'', Literal ''4'')])
   \<and> spread_then [(''A'', Literal ''1''), (''B'', Literal ''2'')]
                   [(''B'', Literal ''3''), (''C'', Literal ''4'')]
       = [(''A'', Literal ''1''), (''B'', Literal ''3''), (''C'', Literal ''4'')]
   \<and> get_property (spread_then [(''A'', Literal ''1''), (''B'', Literal ''2'')]
                                 [(''B'', Literal ''3''), (''C'', Literal ''4'')]) ''B''
       = Some (Literal ''3'')
   \<and> get_property (spread_then [(''A'', Literal ''1''), (''B'', Literal ''2'')]
                                 [(''B'', Literal ''3''), (''C'', Literal ''4'')]) ''A''
       = get_property [(''A'', Literal ''1''), (''B'', Literal ''2'')] ''A''"
proof -
  have b: "distinct (keys [(''A'', Literal ''1''), (''B'', Literal ''2'')])"
    and ov: "distinct (keys [(''B'', Literal ''3''), (''C'', Literal ''4'')])"
    by (simp_all add: keys_def)
  from compose_later_wins [OF b ov] b ov show ?thesis
    by (simp add: keys_def spread_then_def)
qed

section \<open>Resolution of the endpoint table\<close>

lemma resolve_endpoint_bound:
  "route_key ep \<in> set (map binding_key (methods api)) \<Longrightarrow>
     resolve_endpoint ao api ep = Inl (ConfigurationError (path ep) (method ep))"
  by (auto simp: resolve_endpoint_def resourceForPath_def addMethod_def route_key_def
      binding_key_def Let_def)

lemma resolve_endpoint_fresh:
  "route_key ep \<notin> set (map binding_key (methods api)) \<Longrightarrow>
     \<exists>api'. resolve_endpoint ao api ep = Inr api'
       \<and> methods api' = methods api @
            [\<lparr> resource = path ep, httpMethod = method ep,
               integration = \<lparr> integration_handler = lambda ep, integration_options = None \<rparr>,
               options = (if requiresAuth ep then Some ao else None) \<rparr>]
       \<and> map binding_key (methods api') = map binding_key (methods api) @ [route_key ep]"
  by (auto simp: resolve_endpoint_def resourceForPath_def addMethod_def route_key_def
      binding_key_def Let_def)

lemma forEach_fresh:
  "distinct (map route_key eps) \<Longrightarrow>
   set (map route_key eps) \<inter> set (map binding_key (methods api)) = {} \<Longrightarrow>
     \<exists>api'. forEach_endpoints ao api eps = Inr api'
       \<and> methods api' = methods api @
            map (\<lambda>ep. \<lparr> resource = path ep, httpMethod = method ep,
                   integration = \<lparr> integration_handler = lambda ep,
                                   integration_options = None \<rparr>,
                   options = (if requiresAuth ep then Some ao else None) \<rparr>) eps"
proof (induction eps arbitrary: api)
  case Nil
  then show ?case by simp
next
  case (Cons ep eps)
  from Cons.prems have "route_key ep \<notin> set (map binding_key (methods api))" by auto
  from resolve_endpoint_fresh [OF this, of ao]
  obtain api1 where r: "resolve_endpoint ao api ep = Inr api1"
    and m: "methods api1 = methods api @
            [\<lparr> resource = path ep, httpMethod = method ep,
               integration = \<lparr> integration_handler = lambda ep, integration_options = None \<rparr>,
               options = (if requiresAuth ep then Some ao else None) \<rparr>]"
    and k: "map binding_key (methods api1) = map binding_key (methods api) @ [route_key ep]"
    by blast
  from Cons.prems have d: "distinct (map route_key eps)" by simp
  from Cons.prems have "set (map route_key eps) \<inter> set (map binding_key (methods api1)) = {}"
    unfolding k by auto
  from Cons.IH [OF d this] r m show ?case by auto
qed

lemma forEach_bound:
  "\<exists>ep \<in> set eps. route_key ep \<in> set (map binding_key (methods api)) \<Longrightarrow>
     \<exists>ep \<in> set eps. forEach_endpoints ao api eps = Inl (ConfigurationError (path ep) (method ep))"
proof (induction eps arbitrary: api)
  case Nil
  then show ?case by simp
next
  case (Cons ep eps)
  show ?case
  proof (cases "route_key ep \<in> set (map binding_key (methods api))")
    case True
    then show ?thesis by (simp add: resolve_endpoint_bound)
  next
    case False
    from resolve_endpoint_fresh [OF this, of ao]
    obtain api1 where r: "resolve_endpoint ao api ep = Inr api1"
      and k: "map binding_key (methods api1) = map binding_key (methods api) @ [route_key ep]"
      by blast
    from Cons.prems False
    have "\<exists>e \<in> set eps. route_key e \<in> set (map binding_key (methods api1))"
      unfolding k by auto
    from Cons.IH [OF this] r show ?thesis by auto
  qed
qed

lemma forEach_duplicate:
  "\<not> distinct (map route_key eps) \<Longrightarrow>
     \<exists>ep \<in> set eps. forEach_endpoints ao api eps = Inl (ConfigurationError (path ep) (method ep))"
proof (induction eps arbitrary: api)
  case Nil
  then show ?case by simp
next
  case (Cons ep eps)
  show ?case
  proof (cases "route_key ep \<in> set (map binding_key (methods api))")
    case True
    then show ?thesis by (simp add: resolve_endpoint_bound)
  next
    case False
    from resolve_endpoint_fresh [OF this, of ao]
    obtain api1 where r: "resolve_endpoint ao api ep = Inr api1"
      and k: "map binding_key (methods api1) = map binding_key (methods api) @ [route_key ep]"
      by blast
    show ?thesis
    proof (cases "distinct (map route_key eps)")
      case False
      from Cons.IH [OF this, of api1] r show ?thesis by auto
    next
      case True
      with Cons.prems have "route_key ep \<in> set (map route_key eps)" by simp
      then obtain e where "e \<in> set eps" "route_key e = route_key ep" by auto
      then have "\<exists>e \<in> set eps. route_key e \<in> set (map binding_key (methods api1))"
        unfolding k by auto
      from forEach_bound [OF this, of ao] r show ?thesis by auto
    qed
  qed
qed

text \<open>
  C1. On a gateway with no method bound yet, resolving a table whose (path, method) pairs
  are unique succeeds, and the gateway then holds exactly one binding per descriptor, the
  \<open>i\<close>-th binding being that of the \<open>i\<close>-th descriptor: same path, same verb, its backing
  function, and the authorizing options exactly when the descriptor requires them.
\<close>

theorem resolution_one_binding_per_descriptor:
  assumes "distinct (map route_key eps)" and "methods api = []"
  shows "\<exists>api'. forEach_endpoints authOpts api eps = Inr api'
           \<and> length (methods api') = length eps
           \<and> (\<forall>i < length eps.
                  resource (methods api' ! i) = path (eps ! i)
                \<and> httpMethod (methods api' ! i) = method (eps ! i)
                \<and> integration_handler (integration (methods api' ! i)) = lambda (eps ! i)
                \<and> options (methods api' ! i)
                    = (if requiresAuth (eps ! i) then Some authOpts else None))"
proof -
  from assms(2) have "set (map route_key eps) \<inter> set (map binding_key (methods api)) = {}"
    by simp
  from forEach_fresh [OF assms(1) this, of authOpts] assms(2) show ?thesis
    by auto
qed

theorem resolution_one_binding_per_descriptor_witness:
  "distinct (map route_key (endpointData dev_props))
   \<and> methods (new_RestApi ''ApiGateway'' (api_construct_props dev_props)) = []
   \<and> (\<exists>api'. forEach_endpoints (authMethodOptions dev_props)
                 (new_RestApi ''ApiGateway'' (api_construct_props dev_props))
                 (endpointData dev_props) = Inr api'
          \<and> length (methods api') = 4
          \<and> resource (methods api' ! 1) = ''/space/bookings''
          \<and> options (methods api' ! 1) = Some (authMethodOptions dev_props)
          \<and> options (methods api' ! 2) = None)"
proof -
  have d: "distinct (map route_key (endpointData dev_props))"
    by (simp add: endpointData_def route_key_def)
  have m: "methods (new_RestApi ''ApiGateway'' (api_construct_props dev_props)) = []"
    by (simp add: new_RestApi_def)
  have len: "length (endpointData dev_props) = 4"
    by (simp add: endpointData_def)
  have e1: "path (endpointData dev_props ! 1) = ''/space/bookings''"
    and a1: "requiresAuth (endpointData dev_props ! 1)"
    and a2: "\<not> requiresAuth (endpointData dev_props ! 2)"
    by (simp_all add: endpointData_def)
  from resolution_one_binding_per_descriptor [OF d m, of "authMethodOptions dev_props"]
  obtain api' where r: "forEach_endpoints (authMethodOptions dev_props)
                 (new_RestApi ''ApiGateway'' (api_construct_props dev_props))
                 (endpointData dev_props) = Inr api'"
    and l: "length (methods api') = length (endpointData dev_props)"
    and e: "\<forall>i < length (endpointData dev_props).
              resource (methods api' ! i) = path (endpointData dev_props ! i)
            \<and> options (methods api' ! i)
                = (if requiresAuth (endpointData dev_props ! i)
                   then Some (authMethodOptions dev_props) else None)"
    by blast
  from e len have "resource (methods api' ! 1) = path (endpointData dev_props ! 1)"
    and "options (methods api' ! 1) = (if requiresAuth (endpointData dev_props ! 1)
                   then Some (authMethodOptions dev_props) else None)"
    and "options (methods api' ! 2) = (if requiresAuth (endpointData dev_props ! 2)
                   then Some (authMethodOptions dev_props) else None)"
    by simp_all
  with e1 a1 a2 have "resource (methods api' ! 1) = ''/space/bookings''"
    and "options (methods api' ! 1) = Some (authMethodOptions dev_props)"
    and "options (methods api' ! 2) = None"
    by simp_all
  with d m r l len show ?thesis by simp
qed

text \<open>
  C2. Resolving a table in which some (path, method) pair occurs twice fails with a
  configuration error naming a pair of the table, whatever the gateway held before; no
  gateway, and so no binding at all, is returned: the exception ends the constructor
  before a stack exists that could be handed to the provisioning engine.
\<close>

theorem duplicate_route_fails:
  assumes "\<not> distinct (map route_key eps)"
  shows "(\<exists>ep \<in> set eps. forEach_endpoints authOpts api eps
            = Inl (ConfigurationError (path ep) (method ep)))
       \<and> (\<forall>api'. forEach_endpoints authOpts api eps \<noteq> Inr api')"
  using forEach_duplicate [OF assms, of authOpts api] by auto

theorem duplicate_route_fails_witness:
  "\<not> distinct (map route_key
        [\<lparr> path = ''/a'', method = ''GET'', lambda = ''f1'', requiresAuth = False \<rparr>,
         \<lparr> path = ''/b'', method = ''GET'', lambda = ''f2'', requiresAuth = True \<rparr>,
         \<lparr> path = ''/a'', method = ''GET'', lambda = ''f3'', requiresAuth = True \<rparr>])
   \<and> forEach_endpoints (authMethodOptions dev_props)
        (new_RestApi ''ApiGateway'' (api_construct_props dev_props))
        [\<lparr> path = ''/a'', method = ''GET'', lambda = ''f1'', requiresAuth = False \<rparr>,
         \<lparr> path = ''/b'', method = ''GET'', lambda = ''f2'', requiresAuth = True \<rparr>,
         \<lparr> path = ''/a'', method = ''GET'', lambda = ''f3'', requiresAuth = True \<rparr>]
       = Inl (ConfigurationError ''/a'' ''GET'')
   \<and> (\<forall>api'. forEach_endpoints (authMethodOptions dev_props)
        (new_RestApi ''ApiGateway'' (api_construct_props dev_props))
        [\<lparr> path = ''/a'', method = ''GET'', lambda = ''f1'', requiresAuth = False \<rparr>,
         \<lparr> path = ''/b'', method = ''GET'', lambda = ''f2'', requiresAuth = True \<rparr>,
         \<lparr> path = ''/a'', method = ''GET'', lambda = ''f3'', requiresAuth = True \<rparr>]
       \<noteq> Inr api')"
proof -
  have nd: "\<not> distinct (map route_key
        [\<lparr> path = ''/a'', method = ''GET'', lambda = ''f1'', requiresAuth = False \<rparr>,
         \<lparr> path = ''/b'', method = ''GET'', lambda = ''f2'', requiresAuth = True \<rparr>,
         \<lparr> path = ''/a'', method = ''GET'', lambda = ''f3'', requiresAuth = True \<rparr>])"
    by (simp add: route_key_def)
  have ev: "forEach_endpoints (authMethodOptions dev_props)
        (new_RestApi ''ApiGateway'' (api_construct_props dev_props))
        [\<lparr> path = ''/a'', method = ''GET'', lambda = ''f1'', requiresAuth = False \<rparr>,
         \<lparr> path = ''/b'', method = ''GET'', lambda = ''f2'', requiresAuth = True \<rparr>,
         \<lparr> path = ''/a'', method = ''GET'', lambda = ''f3'', requiresAuth = True \<rparr>]
       = Inl (ConfigurationError ''/a'' ''GET'')"
    by (simp add: resolve_endpoint_def resourceForPath_def addMethod_def new_RestApi_def Let_def)
  from duplicate_route_fails [OF nd, of "authMethodOptions dev_props"
      "new_RestApi ''ApiGateway'' (api_construct_props dev_props)"]
  have "\<forall>api'. forEach_endpoints (authMethodOptions dev_props)
        (new_RestApi ''ApiGateway'' (api_construct_props dev_props))
        [\<lparr> path = ''/a'', method = ''GET'', lambda = ''f1'', requiresAuth = False \<rparr>,
         \<lparr> path = ''/b'', method = ''GET'', lambda = ''f2'', requiresAuth = True \<rparr>,
         \<lparr> path = ''/a'', method = ''GET'', lambda = ''f3'', requiresAuth = True \<rparr>]
       \<noteq> Inr api'"
    by (rule conjunct2)
  with nd ev show ?thesis by blast
qed

section \<open>The assembled stacks\<close>

text \<open>Both constructors succeed for all properties; these are the stacks they return.\<close>

lemma LibCalGatewayStack_result:
  "LibCalGatewayStack props = Inr
     \<lparr> constructs =
          [SpaceLocationsFunction props, spaceBookingsFunction props,
           cancelBookingFunction props, hoursFunction props, newEventFunction props,
           AuthorizerFunction props, JwtAuthorizer props,
           StringParameter ''ApiUrlParameter''
             \<lparr> parameterName = paramStorePath props @ ''/api-url'',
               parameter_description = ''Path to root of the API gateway.'',
               stringValue = RestApiUrl ''ApiGateway'' \<rparr>],
       stack_api =
         \<lparr> api_id = ''ApiGateway'',
           api_props = api_construct_props props,
           requestValidators = [(''RequestValidator'', \<lparr> validateRequestParameters = True \<rparr>)],
           resources = [''/space/locations'', ''/space/bookings'', ''/hours'', ''/newevent'',
                        ''/space/cancel/{id}''],
           methods =
          [\<lparr> resource = ''/space/locations'', httpMethod = ''GET'',
             integration = \<lparr> integration_handler = ''SpaceLocationsFunction'',
                             integration_options = None \<rparr>,
             options = None \<rparr>,
           \<lparr> resource = ''/space/bookings'', httpMethod = ''GET'',
             integration = \<lparr> integration_handler = ''spaceBookingsFunction'',
                             integration_options = None \<rparr>,
             options = Some (authMethodOptions props) \<rparr>,
           \<lparr> resource = ''/hours'', httpMethod = ''GET'',
             integration = \<lparr> integration_handler = ''hoursFunction'',
                             integration_options = None \<rparr>,
             options = None \<rparr>,
           \<lparr> resource = ''/newevent'', httpMethod = ''POST'',
             integration = \<lparr> integration_handler = ''newEventFunction'',
                             integration_options = None \<rparr>,
             options = None \<rparr>,
           \<lparr> resource = ''/space/cancel/{id}'', httpMethod = ''POST'',
             integration = \<lparr> integration_handler = ''cancelBookingFunction'',
                             integration_options = Some cancelIntegrationOptions \<rparr>,
             options = Some (cancelMethodOptions props) \<rparr>] \<rparr> \<rparr>"
  by (simp add: LibCalGatewayStack_def endpointData_def resolve_endpoint_def resourceForPath_def
      addMethod_def new_RestApi_def addRequestValidator_def SpaceLocationsFunction_def
      spaceBookingsFunction_def cancelBookingFunction_def hoursFunction_def newEventFunction_def
      ApiUrlParameter_def Let_def)

lemma LibCalGatewayStack_reduced_result:
  "LibCalGatewayStack_reduced props = Inr
     \<lparr> constructs =
          [SpaceLocationsFunction props, spaceBookingsFunction props,
           cancelBookingFunction props, AuthorizerFunction props, JwtAuthorizer props],
       stack_api =
         \<lparr> api_id = ''ApiGateway'',
           api_props = api_construct_props props,
           requestValidators = [(''RequestValidator'', \<lparr> validateRequestParameters = True \<rparr>)],
           resources = [''/space/locations'', ''/space/bookings'', ''/space/cancel/{id}''],
           methods =
          [\<lparr> resource = ''/space/locations'', httpMethod = ''GET'',
             integration = \<lparr> integration_handler = ''SpaceLocationsFunction'',
                             integration_options = None \<rparr>,
             options = None \<rparr>,
           \<lparr> resource = ''/space/bookings'', httpMethod = ''GET'',
             integration = \<lparr> integration_handler = ''spaceBookingsFunction'',
                             integration_options = None \<rparr>,
             options = Some (authMethodOptions props) \<rparr>,
           \<lparr> resource = ''/space/cancel/{id}'', httpMethod = ''POST'',
             integration = \<lparr> integration_handler = ''cancelBookingFunction'',
                             integration_options = Some cancelIntegrationOptions \<rparr>,
             options = Some (cancelMethodOptions props) \<rparr>] \<rparr> \<rparr>"
  by (simp add: LibCalGatewayStack_reduced_def endpointData_reduced_def resolve_endpoint_def
      resourceForPath_def addMethod_def new_RestApi_def addRequestValidator_def
      SpaceLocationsFunction_def spaceBookingsFunction_def cancelBookingFunction_def Let_def)

lemmas construct_defs =
  SpaceLocationsFunction_def spaceBookingsFunction_def cancelBookingFunction_def
  hoursFunction_def newEventFunction_def AuthorizerFunction_def JwtAuthorizer_def

lemma attached_authorizer_simps:
  "attached_authorizer \<lparr> resource = r, httpMethod = m, integration = i, options = None \<rparr> = None"
  "attached_authorizer \<lparr> resource = r, httpMethod = m, integration = i,
      options = Some (authMethodOptions props) \<rparr> = Some ''JwtAuthorizer''"
  "attached_authorizer \<lparr> resource = r, httpMethod = m, integration = i,
      options = Some (cancelMethodOptions props) \<rparr> = Some ''JwtAuthorizer''"
  by (simp_all add: attached_authorizer_def authMethodOptions_def cancelMethodOptions_def
      JwtAuthorizer_def)

lemma template_params_routes:
  "template_params ''/space/locations'' = []"
  "template_params ''/space/bookings'' = []"
  "template_params ''/hours'' = []"
  "template_params ''/newevent'' = []"
  "template_params ''/space/cancel/{id}'' = [''id'']"
  by (simp_all add: template_params_def)

lemma required_path_params_simps:
  "required_path_params \<lparr> resource = r, httpMethod = m, integration = i, options = None \<rparr> = []"
  "required_path_params \<lparr> resource = r, httpMethod = m, integration = i,
      options = Some (authMethodOptions props) \<rparr> = []"
  "required_path_params \<lparr> resource = r, httpMethod = m, integration = i,
      options = Some (cancelMethodOptions props) \<rparr> = [''id'']"
  by (simp_all add: required_path_params_def authMethodOptions_def cancelMethodOptions_def)

lemma passes_through_cancel:
  "passes_through \<lparr> resource = r, httpMethod = m,
      integration = \<lparr> integration_handler = h,
                      integration_options = Some cancelIntegrationOptions \<rparr>,
      options = opts \<rparr> ''id''"
  by (simp add: passes_through_def cancelIntegrationOptions_def get_property_def)

lemma env_value:
  "env props =
     [(''SENTRY_DSN'', ParameterLookup (paramStorePath props @ ''/sentry_dsn'')),
      (''SENTRY_ENVIRONMENT'', Literal (stage props)),
      (''SENTRY_RELEASE'', Literal (sentryProject props @ ''@'' @ sentryVersion props)),
      (''LIBCAL_API_URL'', ParameterLookup (paramStorePath props @ ''/libcal_api_url'')),
      (''API_CLIENT_ID'', SecretField (secretsPath props) ''api_client_id''),
      (''API_CLIENT_SECRET'', SecretField (secretsPath props) ''api_client_secret'')]"
  by (simp add: env_def)

lemma env_keys:
  "keys (env props) = [''SENTRY_DSN'', ''SENTRY_ENVIRONMENT'', ''SENTRY_RELEASE'',
      ''LIBCAL_API_URL'', ''API_CLIENT_ID'', ''API_CLIENT_SECRET'']"
  by (simp add: env_value keys_def)

lemma lambda_defs_environment:
  "environment (spaceLocationsLambda props) = env props"
  "environment (spaceBookingsLambda props) = env props"
  "environment (cancelBookingLambda props) = env props"
  "environment (hoursLambda props) = env props @
     [(''LIBCAL_HOURS_WIDGET_URL'', ParameterLookup (paramStorePath props @ ''/hours_widget_url''))]"
  "environment (newEventLambda props) = env props @
     [(''CONTENTFUL_SPACE'', SecretField (cfSecretsPath props) ''library-website/space''),
      (''CONTENTFUL_ENV'', SecretField (cfSecretsPath props) ''library-website/environment''),
      (''CONTENTFUL_CMA_TOKEN'', SecretField (cfSecretsPath props) ''management_token''),
      (''CONTENTFUL_CMA_URL'', Literal ''https://api.contentful.com'')]"
  by (simp_all add: spaceLocationsLambda_def spaceBookingsLambda_def cancelBookingLambda_def
      hoursLambda_def newEventLambda_def spread_then_def env_value)

lemma lambda_defs_attributes:
  "fp \<in> {spaceLocationsLambda props, spaceBookingsLambda props, cancelBookingLambda props,
          hoursLambda props, newEventLambda props}
   \<Longrightarrow> runtime fp = NODEJS_12_X \<and> memorySize fp = 256 \<and> timeout fp = Seconds 30
       \<and> logRetention fp = ONE_WEEK"
  by (auto simp: spaceLocationsLambda_def spaceBookingsLambda_def cancelBookingLambda_def
      hoursLambda_def newEventLambda_def)

lemma lambda_defs_base_environment:
  assumes "fp \<in> {spaceLocationsLambda props, spaceBookingsLambda props,
                  cancelBookingLambda props, hoursLambda props, newEventLambda props}"
    and "k \<in> set (keys (env props))"
  shows "get_property (environment fp) k = get_property (env props) k
       \<and> k \<in> set (keys (environment fp))"
proof -
  from assms(2) have "get_property (env props) k \<noteq> None"
    by (auto simp: get_property_def keys_def map_of_eq_None_iff)
  moreover from assms(1) obtain extra where "environment fp = env props @ extra"
    by (auto simp: lambda_defs_environment)
  ultimately show ?thesis using assms(2)
    by (auto simp: get_property_def keys_def map_add_def split: option.splits)
qed

section \<open>Authorization\<close>

text \<open>
  C4. Either stack, for all properties, is assembled with exactly one authorizer instance,
  \<open>JwtAuthorizer\<close>. Every binding that carries method options has that instance
  attached; every descriptor of the endpoint table with \<open>requiresAuth\<close> has a binding
  for its (path, method) pair with that instance attached, and so has the cancel binding.
\<close>

theorem one_shared_authorizer:
  "(case LibCalGatewayStack props of
      Inl _ \<Rightarrow> False
    | Inr st \<Rightarrow>
        authorizer_instances st = [''JwtAuthorizer'']
      \<and> (\<forall>b \<in> set (methods (stack_api st)).
            options b \<noteq> None \<longrightarrow> attached_authorizer b = Some ''JwtAuthorizer'')
      \<and> (\<forall>ep \<in> set (endpointData props).
            requiresAuth ep \<longrightarrow>
              (\<exists>b \<in> set (methods (stack_api st)).
                 binding_key b = route_key ep \<and> attached_authorizer b = Some ''JwtAuthorizer''))
      \<and> (\<exists>b \<in> set (methods (stack_api st)).
            resource b = ''/space/cancel/{id}'' \<and> attached_authorizer b = Some ''JwtAuthorizer''))
 \<and> (case LibCalGatewayStack_reduced props of
      Inl _ \<Rightarrow> False
    | Inr st \<Rightarrow>
        authorizer_instances st = [''JwtAuthorizer'']
      \<and> (\<forall>b \<in> set (methods (stack_api st)).
            options b \<noteq> None \<longrightarrow> attached_authorizer b = Some ''JwtAuthorizer'')
      \<and> (\<forall>ep \<in> set (endpointData_reduced props).
            requiresAuth ep \<longrightarrow>
              (\<exists>b \<in> set (methods (stack_api st)).
                 binding_key b = route_key ep \<and> attached_authorizer b = Some ''JwtAuthorizer''))
      \<and> (\<exists>b \<in> set (methods (stack_api st)).
            resource b = ''/space/cancel/{id}'' \<and> attached_authorizer b = Some ''JwtAuthorizer''))"
proof -
  have full: "case LibCalGatewayStack props of
      Inl _ \<Rightarrow> False
    | Inr st \<Rightarrow>
        authorizer_instances st = [''JwtAuthorizer'']
      \<and> (\<forall>b \<in> set (methods (stack_api st)).
            options b \<noteq> None \<longrightarrow> attached_authorizer b = Some ''JwtAuthorizer'')
      \<and> (\<forall>ep \<in> set (endpointData props).
            requiresAuth ep \<longrightarrow>
              (\<exists>b \<in> set (methods (stack_api st)).
                 binding_key b = route_key ep \<and> attached_authorizer b = Some ''JwtAuthorizer''))
      \<and> (\<exists>b \<in> set (methods (stack_api st)).
            resource b = ''/space/cancel/{id}'' \<and> attached_authorizer b = Some ''JwtAuthorizer'')"
    by (simp add: LibCalGatewayStack_result authorizer_instances_def construct_defs
        attached_authorizer_simps endpointData_def binding_key_def route_key_def)
  have reduced: "case LibCalGatewayStack_reduced props of
      Inl _ \<Rightarrow> False
    | Inr st \<Rightarrow>
        authorizer_instances st = [''JwtAuthorizer'']
      \<and> (\<forall>b \<in> set (methods (stack_api st)).
            options b \<noteq> None \<longrightarrow> attached_authorizer b = Some ''JwtAuthorizer'')
      \<and> (\<forall>ep \<in> set (endpointData_reduced props).
            requiresAuth ep \<longrightarrow>
              (\<exists>b \<in> set (methods (stack_api st)).
                 binding_key b = route_key ep \<and> attached_authorizer b = Some ''JwtAuthorizer''))
      \<and> (\<exists>b \<in> set (methods (stack_api st)).
            resource b = ''/space/cancel/{id}'' \<and> attached_authorizer b = Some ''JwtAuthorizer'')"
    by (simp add: LibCalGatewayStack_reduced_result authorizer_instances_def construct_defs
        attached_authorizer_simps endpointData_reduced_def binding_key_def route_key_def)
  from full reduced show ?thesis by (rule conjI)
qed

theorem one_shared_authorizer_witness:
  "(case LibCalGatewayStack dev_props of
      Inl _ \<Rightarrow> False
    | Inr st \<Rightarrow>
        authorizer_instances st = [''JwtAuthorizer'']
      \<and> length (methods (stack_api st)) = 5
      \<and> attached_authorizer (methods (stack_api st) ! 0) = None
      \<and> attached_authorizer (methods (stack_api st) ! 1) = Some ''JwtAuthorizer''
      \<and> attached_authorizer (methods (stack_api st) ! 4) = Some ''JwtAuthorizer'')"
  using one_shared_authorizer [of dev_props]
  by (simp add: LibCalGatewayStack_result attached_authorizer_simps)

text \<open>
  C5. The binding of the table's auth-requiring descriptor (\<^verbatim>\<open>/space/bookings\<close>) attaches
  the shared authorizer and marks the \<^verbatim>\<open>Authorization\<close> header as required. The cancel
  binding attaches the shared authorizer too, but it does not mark the header: its options
  copy \<open>authMethodOptions\<close> and then write \<open>requestParameters\<close> anew, with the path
  parameter as the only entry. Evaluated for the stage \<^verbatim>\<open>dev\<close>, in both stacks.
\<close>

theorem cancel_binding_omits_authorization_header:
  "(case LibCalGatewayStack dev_props of
      Inl _ \<Rightarrow> False
    | Inr st \<Rightarrow>
        resource (methods (stack_api st) ! 4) = ''/space/cancel/{id}''
      \<and> attached_authorizer (methods (stack_api st) ! 4) = Some ''JwtAuthorizer''
      \<and> \<not> marks_required (methods (stack_api st) ! 4) ''method.request.header.Authorization''
      \<and> resource (methods (stack_api st) ! 1) = ''/space/bookings''
      \<and> marks_required (methods (stack_api st) ! 1) ''method.request.header.Authorization'')
 \<and> (case LibCalGatewayStack_reduced dev_props of
      Inl _ \<Rightarrow> False
    | Inr st \<Rightarrow>
        resource (methods (stack_api st) ! 2) = ''/space/cancel/{id}''
      \<and> attached_authorizer (methods (stack_api st) ! 2) = Some ''JwtAuthorizer''
      \<and> \<not> marks_required (methods (stack_api st) ! 2) ''method.request.header.Authorization'')"
  by (simp add: LibCalGatewayStack_result LibCalGatewayStack_reduced_result
      attached_authorizer_def marks_required_def cancelMethodOptions_def authMethodOptions_def
      JwtAuthorizer_def get_property_def)

section \<open>The path parameter\<close>

text \<open>
  C6. In either stack, for all properties, the bindings satisfy the path-parameter
  contract: the cancel binding on \<^verbatim>\<open>/space/cancel/{id}\<close> is the only one whose path has
  a template parameter, it marks \<open>id\<close> as a required path parameter of the method and
  maps the method's \<open>id\<close> to the integration's \<open>id\<close>; no other binding marks a path
  parameter as required.
\<close>

theorem one_templated_binding:
  "(case LibCalGatewayStack props of
      Inl _ \<Rightarrow> False
    | Inr st \<Rightarrow> path_parameter_contract (methods (stack_api st)))
 \<and> (case LibCalGatewayStack_reduced props of
      Inl _ \<Rightarrow> False
    | Inr st \<Rightarrow> path_parameter_contract (methods (stack_api st)))"
  by (simp add: LibCalGatewayStack_result LibCalGatewayStack_reduced_result
      path_parameter_contract_def template_params_routes required_path_params_simps
      passes_through_cancel)

theorem one_templated_binding_witness:
  "(case LibCalGatewayStack dev_props of
      Inl _ \<Rightarrow> False
    | Inr st \<Rightarrow>
        path_parameter_contract (methods (stack_api st))
      \<and> map (\<lambda>b. template_params (resource b)) (methods (stack_api st))
          = [[], [], [], [], [''id'']]
      \<and> map required_path_params (methods (stack_api st)) = [[], [], [], [], [''id'']]
      \<and> passes_through (methods (stack_api st) ! 4) ''id'')"
  using one_templated_binding [of dev_props]
  by (simp add: LibCalGatewayStack_result template_params_routes required_path_params_simps
      passes_through_cancel)

section \<open>The stage sequence of the pipeline\<close>

lemma pipeline_stages_without_deploy:
  "\<not> deploy_included cfg \<Longrightarrow>
     pipeline_stages cfg =
       [\<lparr> name = Source, ordinal = 0, inputs = [], outputs = [] \<rparr>,
        \<lparr> name = Build, ordinal = 1, inputs = [], outputs = [] \<rparr>,
        \<lparr> name = Notify, ordinal = 4, inputs = [], outputs = [] \<rparr>]"
  by (simp add: pipeline_stages_def stage_table_def)

lemma pipeline_stages_with_deploy:
  "deploy_included cfg \<Longrightarrow> pipeline_stages cfg = stage_table"
  by (simp add: pipeline_stages_def stage_table_def)

text \<open>
  C7. A stage sequence without \<open>DeployService\<close> (which is the case exactly when no
  service topology is configured) contains no \<open>QAGate\<close>. A sequence with
  \<open>DeployService\<close> has \<open>QAGate\<close> at the next position, once, and the gateway URL that
  \<open>DeployService\<close> produces is among the inputs of \<open>QAGate\<close>.
\<close>

theorem qa_gate_follows_deploy:
  "(DeployService \<notin> set (map name (pipeline_stages cfg))
      \<longrightarrow> \<not> deploy_included cfg \<and> QAGate \<notin> set (map name (pipeline_stages cfg)))
 \<and> (DeployService \<in> set (map name (pipeline_stages cfg))
      \<longrightarrow> deploy_included cfg
        \<and> (\<exists>i. Suc i < length (pipeline_stages cfg)
              \<and> name (pipeline_stages cfg ! i) = DeployService
              \<and> name (pipeline_stages cfg ! Suc i) = QAGate
              \<and> GatewayUrl \<in> set (outputs (pipeline_stages cfg ! i))
              \<and> GatewayUrl \<in> set (inputs (pipeline_stages cfg ! Suc i)))
        \<and> length (filter (\<lambda>s. name s = QAGate) (pipeline_stages cfg)) = 1)"
proof (cases "deploy_included cfg")
  case True
  then have st: "pipeline_stages cfg = stage_table" by (rule pipeline_stages_with_deploy)
  have "Suc 2 < length stage_table \<and> name (stage_table ! 2) = DeployService
      \<and> name (stage_table ! Suc 2) = QAGate
      \<and> GatewayUrl \<in> set (outputs (stage_table ! 2))
      \<and> GatewayUrl \<in> set (inputs (stage_table ! Suc 2))"
    by (simp add: stage_table_def)
  then have "\<exists>i. Suc i < length stage_table \<and> name (stage_table ! i) = DeployService
      \<and> name (stage_table ! Suc i) = QAGate
      \<and> GatewayUrl \<in> set (outputs (stage_table ! i))
      \<and> GatewayUrl \<in> set (inputs (stage_table ! Suc i))"
    by (rule exI)
  moreover have "length (filter (\<lambda>s. name s = QAGate) stage_table) = 1"
    and "DeployService \<in> set (map name stage_table)"
    by (simp_all add: stage_table_def)
  ultimately show ?thesis using True unfolding st by simp
next
  case False
  then show ?thesis by (simp add: pipeline_stages_without_deploy)
qed

theorem qa_gate_follows_deploy_witness:
  "map name (pipeline_stages \<lparr> serviceTopology = None \<rparr>) = [Source, Build, Notify]
 \<and> map name (pipeline_stages \<lparr> serviceTopology = Some ''libcal-gateway-dev'' \<rparr>)
     = [Source, Build, DeployService, QAGate, Notify]
 \<and> deploy_included \<lparr> serviceTopology = Some ''libcal-gateway-dev'' \<rparr>
 \<and> \<not> deploy_included \<lparr> serviceTopology = None \<rparr>"
  using qa_gate_follows_deploy [of "\<lparr> serviceTopology = None \<rparr>"]
    qa_gate_follows_deploy [of "\<lparr> serviceTopology = Some ''libcal-gateway-dev'' \<rparr>"]
  by (simp add: pipeline_stages_def stage_table_def deploy_included_def)

section \<open>The published gateway URL\<close>

text \<open>
  C8. For every stage, the stack of \<^verbatim>\<open>src/libcal-gateway-stack.ts\<close> is assembled with
  exactly one parameter written: its name is \<^verbatim>\<open>/all/libcal-gateway/<stage>/api-url\<close>, its
  value the URL of the stack's gateway, and the QA project for the same stage reads its
  \<^verbatim>\<open>API_URL\<close> variable from the parameter store under that very name.
\<close>

theorem gateway_url_published_where_qa_reads:
  "(case LibCalGatewayStack props of
      Inl _ \<Rightarrow> False
    | Inr st \<Rightarrow>
        (case published_parameters st of
           [sp] \<Rightarrow>
               parameterName sp = ''/all/libcal-gateway/'' @ stage props @ ''/api-url''
             \<and> stringValue sp = RestApiUrl (api_id (stack_api st))
             \<and> get_property
                 (environmentVariables
                    (LibCalGatewayQaProject \<lparr> qa_stage = stage props, qa_role = role \<rparr>))
                 ''API_URL''
               = Some \<lparr> var_value = parameterName sp, var_type = PARAMETER_STORE \<rparr>
         | _ \<Rightarrow> False))"
  by (simp add: LibCalGatewayStack_result published_parameters_def construct_defs
      paramStorePath_def LibCalGatewayQaProject_def get_property_def)

theorem gateway_url_published_where_qa_reads_witness:
  "(case LibCalGatewayStack dev_props of
      Inl _ \<Rightarrow> False
    | Inr st \<Rightarrow>
        map parameterName (published_parameters st) = [''/all/libcal-gateway/dev/api-url'']
      \<and> get_property
           (environmentVariables
              (LibCalGatewayQaProject \<lparr> qa_stage = ''dev'', qa_role = ''qa-role'' \<rparr>))
           ''API_URL''
         = Some \<lparr> var_value = ''/all/libcal-gateway/dev/api-url'',
                  var_type = PARAMETER_STORE \<rparr>)"
  using gateway_url_published_where_qa_reads [of dev_props "''qa-role''"]
  by (simp add: LibCalGatewayStack_result published_parameters_def construct_defs
      paramStorePath_def LibCalGatewayQaProject_def get_property_def dev_props_def)

section \<open>The routing surface\<close>


section \<open>Attributes of the backing functions\<close>

text \<open>
  C10. The full stack declares five backing functions and the reduced stack three. Each of
  them runs on Node.js 12.x with 256 MB of memory, a timeout of 30 seconds and one week of
  log retention, and its environment has every name of the shared base environment, with
  the base's value; the base names are the six listed.
\<close>

theorem functions_share_attributes_and_base_environment:
  "(case LibCalGatewayStack props of
      Inl _ \<Rightarrow> False
    | Inr st \<Rightarrow>
        length (declared_functions st) = 5
      \<and> (\<forall>fp \<in> set (declared_functions st).
            runtime fp = NODEJS_12_X \<and> memorySize fp = 256 \<and> timeout fp = Seconds 30
          \<and> logRetention fp = ONE_WEEK
          \<and> (\<forall>k \<in> set (keys (env props)).
                get_property (environment fp) k = get_property (env props) k
              \<and> k \<in> set (keys (environment fp)))))
 \<and> (case LibCalGatewayStack_reduced props of
      Inl _ \<Rightarrow> False
    | Inr st \<Rightarrow>
        length (declared_functions st) = 3
      \<and> (\<forall>fp \<in> set (declared_functions st).
            runtime fp = NODEJS_12_X \<and> memorySize fp = 256 \<and> timeout fp = Seconds 30
          \<and> logRetention fp = ONE_WEEK
          \<and> (\<forall>k \<in> set (keys (env props)).
                get_property (environment fp) k = get_property (env props) k
              \<and> k \<in> set (keys (environment fp)))))
 \<and> keys (env props) = [''SENTRY_DSN'', ''SENTRY_ENVIRONMENT'', ''SENTRY_RELEASE'',
      ''LIBCAL_API_URL'', ''API_CLIENT_ID'', ''API_CLIENT_SECRET'']"
proof -
  have full: "declared_functions
     \<lparr> constructs =
          [SpaceLocationsFunction props, spaceBookingsFunction props,
           cancelBookingFunction props, hoursFunction props, newEventFunction props,
           AuthorizerFunction props, JwtAuthorizer props, c],
       stack_api = a \<rparr>
     = [spaceLocationsLambda props, spaceBookingsLambda props, cancelBookingLambda props,
        hoursLambda props, newEventLambda props]" if "c = StringParameter i sp" for c a i sp
    using that by (simp add: declared_functions_def construct_defs)
  have reduced: "declared_functions
     \<lparr> constructs =
          [SpaceLocationsFunction props, spaceBookingsFunction props,
           cancelBookingFunction props, AuthorizerFunction props, JwtAuthorizer props],
       stack_api = a \<rparr>
     = [spaceLocationsLambda props, spaceBookingsLambda props, cancelBookingLambda props]"
    for a
    by (simp add: declared_functions_def construct_defs)
  have attrs: "runtime fp = NODEJS_12_X \<and> memorySize fp = 256 \<and> timeout fp = Seconds 30
          \<and> logRetention fp = ONE_WEEK
          \<and> (\<forall>k \<in> set (keys (env props)).
                get_property (environment fp) k = get_property (env props) k
              \<and> k \<in> set (keys (environment fp)))"
    if "fp \<in> {spaceLocationsLambda props, spaceBookingsLambda props,
                cancelBookingLambda props, hoursLambda props, newEventLambda props}" for fp
    using lambda_defs_attributes [OF that] lambda_defs_base_environment [OF that] by blast
  show ?thesis
    unfolding LibCalGatewayStack_result LibCalGatewayStack_reduced_result
    by (simp add: full reduced attrs env_keys)
qed

theorem functions_share_attributes_and_base_environment_witness:
  "(case LibCalGatewayStack dev_props of
      Inl _ \<Rightarrow> False
    | Inr st \<Rightarrow>
        map handler (declared_functions st)
          = [''getSpaceLocations.handler'', ''getSpaceBookings.handler'',
             ''cancelBooking.handler'', ''hours.handler'', ''newEvent.handler'']
      \<and> map timeout (declared_functions st)
          = [Seconds 30, Seconds 30, Seconds 30, Seconds 30, Seconds 30]
      \<and> get_property (environment (declared_functions st ! 3)) ''SENTRY_ENVIRONMENT''
          = Some (Literal ''dev'')
      \<and> get_property (environment (declared_functions st ! 4)) ''API_CLIENT_ID''
          = Some (SecretField ''/all/libcal-gateway/dev/secrets'' ''api_client_id''))"
  using functions_share_attributes_and_base_environment [of dev_props]
  by (simp add: LibCalGatewayStack_result declared_functions_def construct_defs
      spaceLocationsLambda_def spaceBookingsLambda_def cancelBookingLambda_def
      hoursLambda_def newEventLambda_def spread_then_def env_value get_property_def
      dev_props_def)

end
